theory Spec2Isabelle
  imports Main
begin

section \<open>QueueCTL: a SQLite-backed job queue with backoff and a dead-letter queue\<close>

text \<open>
  The model follows \<^verbatim>\<open>queuectl.py\<close>. The SQLite database is a record of three tables.
  A table is the list of its rows in rowid order; \<^verbatim>\<open>INSERT OR REPLACE\<close> deletes the row
  with the same primary key and appends the new row, \<^verbatim>\<open>UPDATE\<close> rewrites rows in place,
  \<^verbatim>\<open>DELETE\<close> filters them out. The clock is an argument of every operation that reads
  it: one number of seconds stands for both \<^verbatim>\<open>int(time.time())\<close> and SQLite's
  \<^verbatim>\<open>CURRENT_TIMESTAMP\<close> (whose text form orders like the number). Integers are Python's
  unbounded integers; the 64-bit range of an SQLite INTEGER column is outside the model.
  The \<^verbatim>\<open>attempts\<close> columns only ever receive 0 or an increment, so they are naturals.
  Log output is not modelled; what an operation reports is its result value.
\<close>

subsection \<open>Data model\<close>

type_synonym timestamp = int

datatype error = KeyError | ValueError | TypeError

datatype job_state = Pending | Processing

record job_row =
  r_id :: string
  r_command :: string
  r_max_retries :: int
  r_attempts :: nat
  r_state :: job_state
  r_enqueued_at :: timestamp
  r_next_run :: int

record dlq_row =
  d_id :: string
  d_command :: string
  d_max_retries :: int
  d_attempts :: nat
  d_failed_at :: timestamp

record store =
  jobs :: "job_row list"
  dlq :: "dlq_row list"
  config :: "(string \<times> string) list"

text \<open>The dictionary that \<^verbatim>\<open>get_next_job\<close> hands to a worker.\<close>

record job =
  j_id :: string
  j_command :: string
  j_max_retries :: int
  j_attempts :: nat

text \<open>
  The object that \<^verbatim>\<open>json.loads\<close> returns for a submission: a key that is absent is
  \<open>None\<close>.
\<close>

record payload =
  p_id :: "string option"
  p_command :: "string option"
  p_max_retries :: "int option"

definition empty_store :: store where
  "empty_store = \<lparr>jobs = [], dlq = [], config = []\<rparr>"

text \<open>The primary keys of the two tables.\<close>

definition pk_ok :: "store \<Rightarrow> bool" where
  "pk_ok s = (distinct (map r_id (jobs s)) \<and> distinct (map d_id (dlq s)))"

subsection \<open>Python's \<^verbatim>\<open>int(str)\<close> on ASCII text\<close>

definition is_space :: "char \<Rightarrow> bool" where
  "is_space c = (c \<in> set [CHR 0x09, CHR 0x0A, CHR 0x0B, CHR 0x0C, CHR 0x0D,
                            CHR 0x1C, CHR 0x1D, CHR 0x1E, CHR 0x1F, CHR 0x20])"

definition is_digit :: "char \<Rightarrow> bool" where
  "is_digit c = (c \<in> set ''0123456789'')"

definition digit_val :: "char \<Rightarrow> nat" where
  "digit_val c = of_char c - 48"

definition strip :: "string \<Rightarrow> string" where
  "strip s = rev (dropWhile is_space (rev (dropWhile is_space s)))"

text \<open>Digits, with single underscores allowed between two digits.\<close>

fun py_digits :: "nat \<Rightarrow> string \<Rightarrow> nat option" where
  "py_digits acc [] = Some acc"
| "py_digits acc [c] = (if is_digit c then Some (10 * acc + digit_val c) else None)"
| "py_digits acc (c # d # cs) =
     (if is_digit c then py_digits (10 * acc + digit_val c) (d # cs)
      else if c = CHR ''_'' \<and> is_digit d then py_digits acc (d # cs)
      else None)"

definition py_unsigned :: "string \<Rightarrow> nat option" where
  "py_unsigned s = (case s of [] \<Rightarrow> None
                    | c # cs \<Rightarrow> if is_digit c then py_digits 0 s else None)"

definition py_int :: "string \<Rightarrow> int option" where
  "py_int s =
     (case strip s of
        [] \<Rightarrow> None
      | c # cs \<Rightarrow>
          if c = CHR ''-'' then map_option (\<lambda>n. - int n) (py_unsigned cs)
          else if c = CHR ''+'' then map_option int (py_unsigned cs)
          else map_option int (py_unsigned (c # cs)))"

subsection \<open>Configuration\<close>

definition DEFAULT_backoff_base :: int where
  "DEFAULT_backoff_base = 2"

definition DEFAULT_max_retries :: int where
  "DEFAULT_max_retries = 3"

definition insert_or_ignore :: "string \<Rightarrow> string \<Rightarrow> (string \<times> string) list \<Rightarrow> (string \<times> string) list" where
  "insert_or_ignore k v cfg = (if k \<in> fst ` set cfg then cfg else cfg @ [(k, v)])"

definition init_db :: "store \<Rightarrow> store" where
  "init_db s = s\<lparr>config := insert_or_ignore ''max_retries'' ''3''
                              (insert_or_ignore ''backoff_base'' ''2'' (config s))\<rparr>"

definition get_config :: "string \<Rightarrow> store \<Rightarrow> string option" where
  "get_config key s = map_of (config s) key"


text \<open>
  \<^verbatim>\<open>int(get_config(key) or DEFAULT_CONFIG[key])\<close>: a missing or empty value gives the
  default, any other text goes through \<^verbatim>\<open>int\<close>, which raises \<^verbatim>\<open>ValueError\<close> on text
  that is not an integer literal.
\<close>

definition config_int :: "string \<Rightarrow> int \<Rightarrow> store \<Rightarrow> error + int" where
  "config_int key dflt s =
     (case get_config key s of
        None \<Rightarrow> Inr dflt
      | Some v \<Rightarrow>
          if v = [] then Inr dflt
          else (case py_int v of None \<Rightarrow> Inl ValueError | Some n \<Rightarrow> Inr n))"

subsection \<open>Submission\<close>

datatype enqueue_result = Enqueued | Failed_to_enqueue error

definition insert_or_replace_job :: "job_row \<Rightarrow> job_row list \<Rightarrow> job_row list" where
  "insert_or_replace_job r rows = filter (\<lambda>x. r_id x \<noteq> r_id r) rows @ [r]"

text \<open>
  The default of \<^verbatim>\<open>job.get("max_retries", int(get_config(...) or ...))\<close> is an argument
  of the call, so Python evaluates it (and \<^verbatim>\<open>int\<close> may raise) whether or not the payload
  has the key. Every exception is caught and logged, with the store as it was.
\<close>

definition enqueue :: "timestamp \<Rightarrow> payload \<Rightarrow> store \<Rightarrow> enqueue_result \<times> store" where
  "enqueue now p s =
     (case p_id p of
        None \<Rightarrow> (Failed_to_enqueue KeyError, s)
      | Some job_id \<Rightarrow>
     (case p_command p of
        None \<Rightarrow> (Failed_to_enqueue KeyError, s)
      | Some cmd \<Rightarrow>
     (case config_int ''max_retries'' DEFAULT_max_retries s of
        Inl e \<Rightarrow> (Failed_to_enqueue e, s)
      | Inr dflt \<Rightarrow>
          let max_retries = (case p_max_retries p of None \<Rightarrow> dflt | Some m \<Rightarrow> m)
          in (Enqueued,
              s\<lparr>jobs := insert_or_replace_job
                   \<lparr>r_id = job_id, r_command = cmd, r_max_retries = max_retries,
                    r_attempts = 0, r_state = Pending, r_enqueued_at = now, r_next_run = 0\<rparr>
                   (jobs s)\<rparr>))))"

subsection \<open>The claim transaction\<close>

text \<open>
  Where \<^verbatim>\<open>sqlite3.OperationalError\<close> (the store is locked) is raised inside the
  transaction, if at all.
\<close>

datatype stage = AtBegin | AtSelect | AtUpdate | AtCommit

definition eligible :: "timestamp \<Rightarrow> job_row \<Rightarrow> bool" where
  "eligible now r = (r_state r = Pending \<and> r_next_run r \<le> now)"

text \<open>
  \<^verbatim>\<open>ORDER BY enqueued_at LIMIT 1\<close>: a row with the least \<^verbatim>\<open>enqueued_at\<close>; among
  equal ones the model takes the first in rowid order.
\<close>

fun oldest :: "job_row list \<Rightarrow> job_row option" where
  "oldest [] = None"
| "oldest (r # rs) =
     (case oldest rs of
        None \<Rightarrow> Some r
      | Some r' \<Rightarrow> if r_enqueued_at r \<le> r_enqueued_at r' then Some r else Some r')"

definition select_next :: "timestamp \<Rightarrow> job_row list \<Rightarrow> job_row option" where
  "select_next now rows = oldest (filter (eligible now) rows)"

definition mark_processing :: "string \<Rightarrow> job_row list \<Rightarrow> job_row list" where
  "mark_processing job_id rows =
     map (\<lambda>r. if r_id r = job_id then r\<lparr>r_state := Processing\<rparr> else r) rows"

definition job_of_row :: "job_row \<Rightarrow> job" where
  "job_of_row r = \<lparr>j_id = r_id r, j_command = r_command r,
                   j_max_retries = r_max_retries r, j_attempts = r_attempts r\<rparr>"

text \<open>
  On \<^verbatim>\<open>OperationalError\<close> the handler rolls the transaction back and returns
  \<^verbatim>\<open>None\<close>: the store is the one from before \<^verbatim>\<open>BEGIN IMMEDIATE\<close>.
\<close>

definition get_next_job :: "stage option \<Rightarrow> timestamp \<Rightarrow> store \<Rightarrow> job option \<times> store" where
  "get_next_job fault now s =
     (if fault = Some AtBegin then (None, s)
      else if fault = Some AtSelect then (None, s)
      else (case select_next now (jobs s) of
              None \<Rightarrow> (None, s)
            | Some row \<Rightarrow>
                if fault = Some AtUpdate then (None, s)
                else let s' = s\<lparr>jobs := mark_processing (r_id row) (jobs s)\<rparr>
                     in if fault = Some AtCommit then (None, s)
                        else (Some (job_of_row row), s')))"

subsection \<open>Outcome handling\<close>

definition finish_job :: "string \<Rightarrow> store \<Rightarrow> store" where
  "finish_job job_id s = s\<lparr>jobs := filter (\<lambda>r. r_id r \<noteq> job_id) (jobs s)\<rparr>"

definition move_to_dlq :: "timestamp \<Rightarrow> job \<Rightarrow> nat \<Rightarrow> store \<Rightarrow> store" where
  "move_to_dlq now j attempts s =
     s\<lparr>jobs := filter (\<lambda>r. r_id r \<noteq> j_id j) (jobs s),
       dlq := filter (\<lambda>d. d_id d \<noteq> j_id j) (dlq s) @
              [\<lparr>d_id = j_id j, d_command = j_command j, d_max_retries = j_max_retries j,
                d_attempts = attempts, d_failed_at = now\<rparr>]\<rparr>"

definition schedule_retry :: "timestamp \<Rightarrow> job \<Rightarrow> nat \<Rightarrow> int \<Rightarrow> store \<Rightarrow> store" where
  "schedule_retry now j attempts backoff_base s =
     (let delay = backoff_base ^ attempts;
          next_run = now + delay
      in s\<lparr>jobs := map (\<lambda>r. if r_id r = j_id j
                              then r\<lparr>r_attempts := attempts, r_state := Pending, r_next_run := next_run\<rparr>
                              else r) (jobs s)\<rparr>)"

definition increment_attempts :: "string \<Rightarrow> store \<Rightarrow> store" where
  "increment_attempts job_id s =
     s\<lparr>jobs := map (\<lambda>r. if r_id r = job_id then r\<lparr>r_attempts := r_attempts r + 1\<rparr> else r) (jobs s)\<rparr>"

definition select_attempts :: "string \<Rightarrow> store \<Rightarrow> nat option" where
  "select_attempts job_id s = map_option r_attempts (find (\<lambda>r. r_id r = job_id) (jobs s))"

datatype run_result = Returned bool | Raised error

text \<open>
  \<^verbatim>\<open>run_job\<close> with the exit code \<open>rc\<close> of the command as an argument. On failure the
  increment of \<^verbatim>\<open>attempts\<close> is committed first; then \<^verbatim>\<open>fetchone()[0]\<close> raises
  \<^verbatim>\<open>TypeError\<close> when the row is gone, and reading the two configuration values may
  raise \<^verbatim>\<open>ValueError\<close> (the default of \<^verbatim>\<open>job.get\<close> is evaluated although the
  dictionary has the key). An exception leaves the store after the increment.
\<close>

definition run_job :: "int \<Rightarrow> timestamp \<Rightarrow> job \<Rightarrow> store \<Rightarrow> run_result \<times> store" where
  "run_job rc now j s =
     (if rc = 0 then (Returned True, finish_job (j_id j) s)
      else
        let s1 = increment_attempts (j_id j) s in
        (case select_attempts (j_id j) s1 of
           None \<Rightarrow> (Raised TypeError, s1)
         | Some attempts \<Rightarrow>
        (case config_int ''max_retries'' DEFAULT_max_retries s1 of
           Inl e \<Rightarrow> (Raised e, s1)
         | Inr dflt \<Rightarrow>
        (case config_int ''backoff_base'' DEFAULT_backoff_base s1 of
           Inl e \<Rightarrow> (Raised e, s1)
         | Inr backoff_base \<Rightarrow>
             let max_retries = j_max_retries j in
             if int attempts > max_retries
             then (Returned False, move_to_dlq now j attempts s1)
             else (Returned False, schedule_retry now j attempts backoff_base s1)))))"

subsection \<open>Operator commands\<close>

datatype retry_result = Retried | No_DLQ_job

definition dlq_retry :: "timestamp \<Rightarrow> string \<Rightarrow> store \<Rightarrow> retry_result \<times> store" where
  "dlq_retry now job_id s =
     (case find (\<lambda>d. d_id d = job_id) (dlq s) of
        None \<Rightarrow> (No_DLQ_job, s)
      | Some row \<Rightarrow>
          (Retried,
           s\<lparr>dlq := filter (\<lambda>d. d_id d \<noteq> job_id) (dlq s),
             jobs := insert_or_replace_job
                \<lparr>r_id = d_id row, r_command = d_command row, r_max_retries = d_max_retries row,
                 r_attempts = 0, r_state = Pending, r_enqueued_at = now, r_next_run = 0\<rparr>
                (jobs s)\<rparr>))"

subsection \<open>Operations as data\<close>

text \<open>
  The engine's operations on the store, so that a property of every operation is one
  statement. \<open>Run_job\<close> is the whole outcome handler; \<open>Finish\<close>, \<open>Reschedule\<close> and
  \<open>Dlq_move\<close> are its three parts, which are functions of their own in the source.
\<close>

datatype operation =
    Enqueue payload
  | Claim "stage option"
  | Finish string
  | Reschedule job nat int
  | Dlq_move job nat
  | Run_job int job
  | Dlq_retry string

fun apply_op :: "timestamp \<Rightarrow> operation \<Rightarrow> store \<Rightarrow> store" where
  "apply_op now (Enqueue p) s = snd (enqueue now p s)"
| "apply_op now (Claim fault) s = snd (get_next_job fault now s)"
| "apply_op now (Finish job_id) s = finish_job job_id s"
| "apply_op now (Reschedule j attempts backoff_base) s = schedule_retry now j attempts backoff_base s"
| "apply_op now (Dlq_move j attempts) s = move_to_dlq now j attempts s"
| "apply_op now (Run_job rc j) s = snd (run_job rc now j s)"
| "apply_op now (Dlq_retry job_id) s = snd (dlq_retry now job_id s)"

definition job_ids :: "store \<Rightarrow> string set" where
  "job_ids s = r_id ` set (jobs s)"

definition dlq_ids :: "store \<Rightarrow> string set" where
  "dlq_ids s = d_id ` set (dlq s)"

definition disjoint_tables :: "store \<Rightarrow> bool" where
  "disjoint_tables s = (job_ids s \<inter> dlq_ids s = {})"

text \<open>A submission whose id has a record in the dead-letter queue.\<close>

definition enqueue_target_dead :: "operation \<Rightarrow> store \<Rightarrow> bool" where
  "enqueue_target_dead opn s =
     (case opn of
        Enqueue p \<Rightarrow> (case p_id p of Some x \<Rightarrow> x \<in> dlq_ids s | None \<Rightarrow> False)
      | _ \<Rightarrow> False)"

subsection \<open>Concurrent claim calls\<close>

text \<open>
  \<^verbatim>\<open>get_next_job\<close> statement by statement, for workers that run it at the same time.
  A worker stands for one call: a thread that calls again is another worker of the same
  process. A worker is at one of six points: before \<^verbatim>\<open>with LOCK\<close>; holding the lock of its
  process; inside the transaction that \<^verbatim>\<open>BEGIN IMMEDIATE\<close> opened; after the
  \<^verbatim>\<open>SELECT\<close>, with the row it fetched; after the \<^verbatim>\<open>UPDATE\<close>, with the jobs table
  as its transaction sees it; and returned. \<^verbatim>\<open>LOCK\<close> is one lock per process (\<open>proc\<close>
  maps a worker to its process). \<^verbatim>\<open>BEGIN IMMEDIATE\<close> takes the write lock of the
  database or, when another connection holds it, raises \<^verbatim>\<open>OperationalError\<close>, which
  the handler turns into \<^verbatim>\<open>None\<close>. \<^verbatim>\<open>COMMIT\<close> publishes the transaction's table and
  frees the write lock. \<open>Fail\<close> is \<^verbatim>\<open>OperationalError\<close> raised by the statement the
  worker is about to execute, for whatever reason: the transaction is rolled back. A
  schedule is the list of the workers' statements in the order they execute; a statement
  that cannot execute in the current state stops the run.
\<close>

type_synonym worker = nat

datatype pc =
    Start
  | Locked
  | In_tx
  | Selected "job_row option"
  | Updated job_row "job_row list"
  | Done "job option"

record sys =
  db :: store
  db_writer :: "worker option"
  py_lock :: "nat \<Rightarrow> worker option"
  pcs :: "worker \<Rightarrow> pc"

datatype action = Acquire | Begin | Select timestamp | Update | Commit | Fail

definition initial :: "store \<Rightarrow> sys" where
  "initial s = \<lparr>db = s, db_writer = None, py_lock = (\<lambda>_. None), pcs = (\<lambda>_. Start)\<rparr>"

text \<open>Leaving the \<^verbatim>\<open>with LOCK\<close> block with a result.\<close>

definition leave :: "(worker \<Rightarrow> nat) \<Rightarrow> worker \<Rightarrow> job option \<Rightarrow> sys \<Rightarrow> sys" where
  "leave proc w res c = c\<lparr>py_lock := (py_lock c)(proc w := None), pcs := (pcs c)(w := Done res)\<rparr>"

definition rollback :: "(worker \<Rightarrow> nat) \<Rightarrow> worker \<Rightarrow> sys \<Rightarrow> sys" where
  "rollback proc w c = leave proc w None (c\<lparr>db_writer := None\<rparr>)"

fun step :: "(worker \<Rightarrow> nat) \<Rightarrow> worker \<Rightarrow> action \<Rightarrow> sys \<Rightarrow> sys option" where
  "step proc w Acquire c =
     (if pcs c w = Start \<and> py_lock c (proc w) = None
      then Some (c\<lparr>py_lock := (py_lock c)(proc w := Some w), pcs := (pcs c)(w := Locked)\<rparr>)
      else None)"
| "step proc w Begin c =
     (if pcs c w = Locked
      then (if db_writer c = None
            then Some (c\<lparr>db_writer := Some w, pcs := (pcs c)(w := In_tx)\<rparr>)
            else Some (leave proc w None c))
      else None)"
| "step proc w (Select now) c =
     (if pcs c w = In_tx
      then Some (c\<lparr>pcs := (pcs c)(w := Selected (select_next now (jobs (db c))))\<rparr>)
      else None)"
| "step proc w Update c =
     (case pcs c w of
        Selected (Some row) \<Rightarrow>
          Some (c\<lparr>pcs := (pcs c)(w := Updated row (mark_processing (r_id row) (jobs (db c))))\<rparr>)
      | _ \<Rightarrow> None)"
| "step proc w Commit c =
     (case pcs c w of
        Selected None \<Rightarrow> Some (leave proc w None (c\<lparr>db_writer := None\<rparr>))
      | Updated row rows \<Rightarrow>
          Some (leave proc w (Some (job_of_row row))
                  (c\<lparr>db := (db c)\<lparr>jobs := rows\<rparr>, db_writer := None\<rparr>))
      | _ \<Rightarrow> None)"
| "step proc w Fail c =
     (case pcs c w of
        Locked \<Rightarrow> Some (leave proc w None c)
      | In_tx \<Rightarrow> Some (rollback proc w c)
      | Selected row \<Rightarrow> Some (rollback proc w c)
      | Updated row rows \<Rightarrow> Some (rollback proc w c)
      | _ \<Rightarrow> None)"

fun run :: "(worker \<Rightarrow> nat) \<Rightarrow> (worker \<times> action) list \<Rightarrow> sys \<Rightarrow> sys option" where
  "run proc [] c = Some c"
| "run proc ((w, a) # evs) c =
     (case step proc w a c of None \<Rightarrow> None | Some c' \<Rightarrow> run proc evs c')"



subsection \<open>Concrete stores\<close>

definition ex_config :: "(string \<times> string) list" where
  "ex_config = [(''backoff_base'', ''2''), (''max_retries'', ''3'')]"

definition ex_rowA :: job_row where
  "ex_rowA = \<lparr>r_id = ''A'', r_command = ''echo a'', r_max_retries = 3, r_attempts = 0,
              r_state = Pending, r_enqueued_at = 1, r_next_run = 0\<rparr>"

definition ex_rowB :: job_row where
  "ex_rowB = \<lparr>r_id = ''B'', r_command = ''echo b'', r_max_retries = 3, r_attempts = 0,
              r_state = Pending, r_enqueued_at = 2, r_next_run = 0\<rparr>"

definition ex_rowC :: job_row where
  "ex_rowC = \<lparr>r_id = ''C'', r_command = ''echo c'', r_max_retries = 3, r_attempts = 1,
              r_state = Pending, r_enqueued_at = 0, r_next_run = 500\<rparr>"

definition ex_store :: store where
  "ex_store = \<lparr>jobs = [ex_rowC, ex_rowB, ex_rowA], dlq = [], config = ex_config\<rparr>"




definition ex_dead_row :: dlq_row where
  "ex_dead_row = \<lparr>d_id = ''y'', d_command = ''false'', d_max_retries = 2, d_attempts = 3,
                  d_failed_at = 50\<rparr>"

definition ex_dead_store :: store where
  "ex_dead_store = \<lparr>jobs = [ex_rowA], dlq = [ex_dead_row], config = ex_config\<rparr>"

text \<open>A list of operations, each with the clock reading at which it runs.\<close>

fun run_ops :: "(timestamp \<times> operation) list \<Rightarrow> store \<Rightarrow> store" where
  "run_ops [] s = s"
| "run_ops ((now, opn) # ops) s = run_ops ops (apply_op now opn s)"

text \<open>A job \<open>x\<close> whose command always fails, as payload, as claimed job and as row.\<close>

definition payload_x :: "int option \<Rightarrow> payload" where
  "payload_x m = \<lparr>p_id = Some ''x'', p_command = Some ''false'', p_max_retries = m\<rparr>"

definition job_x :: "int \<Rightarrow> nat \<Rightarrow> job" where
  "job_x m a = \<lparr>j_id = ''x'', j_command = ''false'', j_max_retries = m, j_attempts = a\<rparr>"

definition row_x :: "int \<Rightarrow> nat \<Rightarrow> job_state \<Rightarrow> timestamp \<Rightarrow> int \<Rightarrow> job_row" where
  "row_x m a st t n = \<lparr>r_id = ''x'', r_command = ''false'', r_max_retries = m, r_attempts = a,
                        r_state = st, r_enqueued_at = t, r_next_run = n\<rparr>"

definition one_job_store :: "job_row \<Rightarrow> store" where
  "one_job_store r = \<lparr>jobs = [r], dlq = [], config = ex_config\<rparr>"



text \<open>
  The store after \<^verbatim>\<open>init_db\<close>, and the same store after
  \<^verbatim>\<open>config set backoff_base fast\<close> and after \<^verbatim>\<open>config set max_retries three\<close>.
\<close>

definition fresh_store :: store where
  "fresh_store = init_db empty_store"





section \<open>Properties\<close>

subsection \<open>Evaluating the model\<close>

text \<open>
  The definitions that \<open>simp\<close> unfolds to run an operation on a concrete store, one
  collection for each function of the source.
\<close>

lemmas config_eval =
  config_int_def get_config_def py_int_def strip_def is_space_def py_unsigned_def is_digit_def
  digit_val_def

lemmas enqueue_eval = enqueue_def insert_or_replace_job_def DEFAULT_max_retries_def

lemmas claim_eval =
  get_next_job_def select_next_def eligible_def mark_processing_def job_of_row_def

lemmas run_job_eval =
  run_job_def finish_job_def increment_attempts_def select_attempts_def move_to_dlq_def
  schedule_retry_def DEFAULT_max_retries_def DEFAULT_backoff_base_def

lemmas fresh_eval = fresh_store_def init_db_def empty_store_def insert_or_ignore_def


lemmas ex_dead_defs = ex_dead_store_def ex_dead_row_def ex_rowA_def ex_config_def

lemma py_int_examples:
  "py_int ''3'' = Some 3" "py_int '' -12 '' = Some (- 12)" "py_int ''1_000'' = Some 1000"
  "py_int ''fast'' = None" "py_int ''1__0'' = None" "py_int ''_1'' = None" "py_int '''' = None"
  by (simp_all add: py_int_def strip_def is_space_def py_unsigned_def is_digit_def digit_val_def)

lemma fresh_store_eq: "fresh_store = \<lparr>jobs = [], dlq = [], config = ex_config\<rparr>"
  by (simp add: fresh_eval ex_config_def)


lemma pk_ok_ex_dead_store: "pk_ok ex_dead_store"
  by (simp add: pk_ok_def ex_dead_defs)

lemma pk_one_job: "pk_ok (one_job_store r)"
  by (simp add: pk_ok_def one_job_store_def)


subsection \<open>Tables keyed by id\<close>

lemma map_by_key_distinct:
  assumes "distinct (map k rows)" "r \<in> set rows"
  shows "map (\<lambda>x. if k x = k r then f x else x) rows = map (\<lambda>x. if x = r then f x else x) rows"
proof (rule map_cong [OF refl])
  fix x assume "x \<in> set rows"
  with assms have "k x = k r \<longleftrightarrow> x = r"
    by (auto simp: distinct_map inj_on_def)
  then show "(if k x = k r then f x else x) = (if x = r then f x else x)" by simp
qed

lemma find_None_ids: "find (\<lambda>d. k d = x) ds = None \<longleftrightarrow> x \<notin> k ` set ds"
  by (auto simp: find_None_iff)

lemma find_Some_distinct:
  assumes "distinct (map k ds)" "d \<in> set ds"
  shows "find (\<lambda>x. k x = k d) ds = Some d"
  using assms by (induction ds) (auto simp: image_iff)

lemma find_map_by_key:
  assumes "\<And>x. k (f x) = k x"
  shows "find (\<lambda>x. k x = a) (map (\<lambda>x. if k x = a then f x else x) rows) =
         map_option f (find (\<lambda>x. k x = a) rows)"
  using assms by (induction rows) auto


lemma image_key_map:
  assumes "\<And>x. k (f x) = k x"
  shows "k ` set (map (\<lambda>x. if P x then f x else x) rows) = k ` set rows"
proof -
  have "map k (map (\<lambda>x. if P x then f x else x) rows) = map k rows"
    using assms by (induction rows) auto
  then have "set (map k (map (\<lambda>x. if P x then f x else x) rows)) = set (map k rows)"
    by (rule arg_cong)
  then show ?thesis
    by (simp only: set_map)
qed

lemma distinct_ids_eq:
  assumes "distinct (map r_id rows)" "r \<in> set rows" "r' \<in> set rows" "r_id r = r_id r'"
  shows "r = r'"
  using assms by (auto simp: distinct_map inj_on_def)

lemma mark_processing_ids: "map r_id (mark_processing k rows) = map r_id rows"
  by (induction rows) (auto simp: mark_processing_def)

subsection \<open>What each operation does to the ids of the two tables\<close>

lemma ids_enqueue:
  "job_ids (snd (enqueue now p s)) \<subseteq> job_ids s \<union> set_option (p_id p)"
  "dlq_ids (snd (enqueue now p s)) = dlq_ids s"
  by (auto simp: enqueue_def job_ids_def dlq_ids_def insert_or_replace_job_def Let_def
      split: option.splits sum.splits)

lemma ids_get_next_job:
  "job_ids (snd (get_next_job fault now s)) = job_ids s"
  "dlq_ids (snd (get_next_job fault now s)) = dlq_ids s"
  by (simp_all add: get_next_job_def job_ids_def dlq_ids_def mark_processing_def Let_def
      image_key_map split: option.splits del: set_map)

lemma ids_finish_job:
  "job_ids (finish_job x s) \<subseteq> job_ids s" "dlq_ids (finish_job x s) = dlq_ids s"
  by (auto simp: finish_job_def job_ids_def dlq_ids_def)

lemma ids_schedule_retry:
  "job_ids (schedule_retry now j a b s) = job_ids s" "dlq_ids (schedule_retry now j a b s) = dlq_ids s"
  by (simp_all add: schedule_retry_def job_ids_def dlq_ids_def Let_def image_key_map del: set_map)

lemma ids_increment_attempts:
  "job_ids (increment_attempts x s) = job_ids s" "dlq_ids (increment_attempts x s) = dlq_ids s"
  by (simp_all add: increment_attempts_def job_ids_def dlq_ids_def image_key_map del: set_map)

lemma ids_move_to_dlq:
  "job_ids (move_to_dlq now j a s) = job_ids s - {j_id j}"
  "dlq_ids (move_to_dlq now j a s) = insert (j_id j) (dlq_ids s)"
  by (auto simp: move_to_dlq_def job_ids_def dlq_ids_def)

lemma ids_dlq_retry:
  "job_ids (snd (dlq_retry now x s)) \<inter> dlq_ids (snd (dlq_retry now x s)) \<subseteq> job_ids s \<inter> dlq_ids s"
proof (cases "find (\<lambda>d. d_id d = x) (dlq s)")
  case None
  then show ?thesis by (simp add: dlq_retry_def)
next
  case (Some d)
  then have "d_id d = x"
    by (auto simp: find_Some_iff)
  with Some show ?thesis
    by (auto simp: dlq_retry_def job_ids_def dlq_ids_def insert_or_replace_job_def)
qed

text \<open>The primary keys hold in the empty store and every operation keeps them.\<close>

lemma pk_ok_fresh: "pk_ok (init_db empty_store)"
  by (simp add: pk_ok_def init_db_def empty_store_def)

lemma pk_ok_apply_op: "pk_ok s \<Longrightarrow> pk_ok (apply_op now opn s)"
proof (cases opn)
  case (Enqueue p)
  assume "pk_ok s"
  then show ?thesis
    by (auto simp: Enqueue pk_ok_def enqueue_def insert_or_replace_job_def Let_def distinct_map_filter
        split: option.splits sum.splits)
next
  case (Claim fault)
  assume "pk_ok s"
  then show ?thesis
    using mark_processing_ids
    by (auto simp: Claim pk_ok_def get_next_job_def Let_def split: option.splits)
next
  case (Finish x)
  assume "pk_ok s"
  then show ?thesis
    by (simp add: Finish pk_ok_def finish_job_def distinct_map_filter)
next
  case (Reschedule j a b)
  assume "pk_ok s"
  then show ?thesis
    by (simp add: Reschedule pk_ok_def schedule_retry_def Let_def o_def if_distrib cong: if_cong)
next
  case (Dlq_move j a)
  assume "pk_ok s"
  then show ?thesis
    by (auto simp: Dlq_move pk_ok_def move_to_dlq_def distinct_map_filter)
next
  case (Run_job rc j)
  assume "pk_ok s"
  then show ?thesis
    by (auto simp: Run_job pk_ok_def run_job_def finish_job_def increment_attempts_def
        move_to_dlq_def schedule_retry_def Let_def distinct_map_filter o_def if_distrib
        split: option.splits sum.splits cong: if_cong)
next
  case (Dlq_retry x)
  assume "pk_ok s"
  then show ?thesis
    by (auto simp: Dlq_retry pk_ok_def dlq_retry_def insert_or_replace_job_def distinct_map_filter
        find_Some_iff split: option.splits)
qed

subsection \<open>The claim transaction\<close>







text \<open>
  C8. When the store raises \<^verbatim>\<open>OperationalError\<close> anywhere in the claim transaction, the
  claim returns \<open>None\<close> and the store is the one from before the call.
\<close>

theorem get_next_job_contention:
  "fault \<noteq> None \<Longrightarrow> get_next_job fault now s = (None, s)"
  by (cases fault; cases "the fault")
     (auto simp: get_next_job_def Let_def split: option.splits)

theorem get_next_job_contention_witness:
  "get_next_job (Some AtCommit) 100 ex_store = (None, ex_store)"
  using get_next_job_contention [of "Some AtCommit" 100 ex_store] by simp

subsection \<open>Concurrent claim calls\<close>

text \<open>A worker that runs alone goes through the statements of \<^verbatim>\<open>get_next_job\<close>.\<close>

lemma run_alone:
  "\<exists>evs c. run proc evs (initial s) = Some c \<and>
            pcs c w = Done (fst (get_next_job None now s)) \<and>
            db c = snd (get_next_job None now s)"
proof (cases "select_next now (jobs s)")
  case None
  then show ?thesis
    by (intro exI [of _ "[(w, Acquire), (w, Begin), (w, Select now), (w, Commit)]"])
       (simp add: initial_def leave_def get_next_job_def)
next
  case (Some row)
  then show ?thesis
    by (intro exI [of _ "[(w, Acquire), (w, Begin), (w, Select now), (w, Update), (w, Commit)]"])
       (simp add: initial_def leave_def get_next_job_def)
qed










subsection \<open>Handling a failed execution\<close>

lemma config_increment_attempts [simp]:
  "config_int key dflt (increment_attempts a s) = config_int key dflt s"
  by (simp add: config_int_def get_config_def increment_attempts_def)

lemma select_attempts_increment:
  assumes "pk_ok s" "r \<in> set (jobs s)"
  shows "select_attempts (r_id r) (increment_attempts (r_id r) s) = Some (r_attempts r + 1)"
proof -
  from assms have "find (\<lambda>x. r_id x = r_id r) (jobs s) = Some r"
    by (intro find_Some_distinct) (simp_all add: pk_ok_def)
  then show ?thesis
    by (simp add: select_attempts_def increment_attempts_def
        find_map_by_key [where k = r_id and f = "\<lambda>x. x\<lparr>r_attempts := r_attempts x + 1\<rparr>"])
qed

lemma run_job_failure_eq:
  assumes "pk_ok s" and "r \<in> set (jobs s)" and "j_id j = r_id r" and "rc \<noteq> 0"
    and "config_int ''max_retries'' DEFAULT_max_retries s = Inr dflt"
    and "config_int ''backoff_base'' DEFAULT_backoff_base s = Inr backoff_base"
  shows "run_job rc now j s =
           (Returned False,
            if int (r_attempts r) + 1 > j_max_retries j
            then move_to_dlq now j (r_attempts r + 1) (increment_attempts (j_id j) s)
            else schedule_retry now j (r_attempts r + 1) backoff_base (increment_attempts (j_id j) s))"
  using assms(3-6) select_attempts_increment [OF assms(1,2)]
  by (simp add: run_job_def)

lemma run_job_Returned:
  assumes "rc \<noteq> 0" and "run_job rc now j s = (Returned b, s')"
  shows "\<exists>dflt backoff_base.
           config_int ''max_retries'' DEFAULT_max_retries s = Inr dflt \<and>
           config_int ''backoff_base'' DEFAULT_backoff_base s = Inr backoff_base"
  using assms
  by (auto simp: run_job_def Let_def split: option.splits sum.splits)

lemma schedule_after_increment:
  assumes "distinct (map r_id (jobs s))" and "r \<in> set (jobs s)" and "j_id j = r_id r"
  shows "schedule_retry now j (r_attempts r + 1) b (increment_attempts (j_id j) s) =
         s\<lparr>jobs := map (\<lambda>x. if x = r
                             then x\<lparr>r_attempts := r_attempts r + 1, r_state := Pending,
                                    r_next_run := now + b ^ (r_attempts r + 1)\<rparr>
                             else x) (jobs s)\<rparr>"
proof -
  have "schedule_retry now j (r_attempts r + 1) b (increment_attempts (j_id j) s) =
        s\<lparr>jobs := map (\<lambda>x. if r_id x = r_id r
                            then x\<lparr>r_attempts := r_attempts r + 1, r_state := Pending,
                                   r_next_run := now + b ^ (r_attempts r + 1)\<rparr>
                            else x) (jobs s)\<rparr>"
    by (simp add: schedule_retry_def increment_attempts_def assms(3) o_def if_distrib cong: if_cong)
  then show ?thesis
    by (simp add: map_by_key_distinct [OF assms(1,2)])
qed








subsection \<open>Disjoint tables\<close>

lemma disjoint_fresh: "disjoint_tables (init_db empty_store)"
  by (simp add: disjoint_tables_def job_ids_def dlq_ids_def init_db_def empty_store_def)

lemma disjoint_run_job:
  assumes "disjoint_tables s"
  shows "disjoint_tables (snd (run_job rc now j s))"
proof -
  from assms have "disjoint_tables (increment_attempts (j_id j) s)"
    by (simp add: disjoint_tables_def ids_increment_attempts)
  then have "disjoint_tables (move_to_dlq now j a (increment_attempts (j_id j) s))"
    and "disjoint_tables (schedule_retry now j a b (increment_attempts (j_id j) s))" for a b
    by (auto simp: disjoint_tables_def ids_move_to_dlq ids_schedule_retry)
  moreover from assms have "disjoint_tables (finish_job (j_id j) s)"
    using ids_finish_job [of "j_id j" s] by (auto simp: disjoint_tables_def)
  moreover note \<open>disjoint_tables (increment_attempts (j_id j) s)\<close>
  ultimately show ?thesis
    by (simp add: run_job_def Let_def split: option.splits sum.splits)
qed

lemma disjoint_apply_op:
  assumes "disjoint_tables s" "\<not> enqueue_target_dead opn s"
  shows "disjoint_tables (apply_op now opn s)"
proof (cases opn)
  case (Enqueue p)
  with assms(2) have "set_option (p_id p) \<inter> dlq_ids s = {}"
    by (auto simp: enqueue_target_dead_def split: option.splits)
  with assms(1) ids_enqueue [of now p s] Enqueue show ?thesis
    by (auto simp: disjoint_tables_def)
next
  case (Claim fault)
  with assms(1) show ?thesis by (simp add: disjoint_tables_def ids_get_next_job)
next
  case (Finish x)
  with assms(1) ids_finish_job [of x s] show ?thesis by (auto simp: disjoint_tables_def)
next
  case (Reschedule j a b)
  with assms(1) show ?thesis by (simp add: disjoint_tables_def ids_schedule_retry)
next
  case (Dlq_move j a)
  with assms(1) show ?thesis by (auto simp: disjoint_tables_def ids_move_to_dlq)
next
  case (Run_job rc j)
  with assms(1) show ?thesis by (simp add: disjoint_run_job)
next
  case (Dlq_retry x)
  with assms(1) ids_dlq_retry [of now x s] show ?thesis by (auto simp: disjoint_tables_def)
qed

lemma budget_decides:
  assumes pk: "pk_ok s" and dj: "disjoint_tables s" and r: "r \<in> set (jobs s)" and rc: "rc \<noteq> 0"
    and run: "run_job rc now (job_of_row r) s = (Returned False, s')"
  shows "if int (r_attempts r) + 1 \<le> r_max_retries r
         then r_id r \<in> job_ids s' \<and> r_id r \<notin> dlq_ids s' \<and>
              (\<forall>r' \<in> set (jobs s'). r_id r' = r_id r \<longrightarrow> int (r_attempts r') \<le> r_max_retries r')
         else r_id r \<notin> job_ids s' \<and> r_id r \<in> dlq_ids s'"
proof -
  let ?j = "job_of_row r"
  have j: "j_id ?j = r_id r" "j_max_retries ?j = r_max_retries r"
    by (simp_all add: job_of_row_def)
  from pk have d: "distinct (map r_id (jobs s))"
    by (simp add: pk_ok_def)
  from run_job_Returned [OF rc run] obtain dflt b
    where cfg: "config_int ''max_retries'' DEFAULT_max_retries s = Inr dflt"
      "config_int ''backoff_base'' DEFAULT_backoff_base s = Inr b"
    by blast
  note eq = run_job_failure_eq [OF pk r j(1) rc cfg, of now]
  show ?thesis
  proof (cases "int (r_attempts r) + 1 \<le> r_max_retries r")
    case True
    with eq run j have s': "s' = schedule_retry now ?j (r_attempts r + 1) b (increment_attempts (j_id ?j) s)"
      by simp
    then have ids: "job_ids s' = job_ids s" "dlq_ids s' = dlq_ids s"
      by (simp_all add: ids_schedule_retry ids_increment_attempts)
    from r have "r_id r \<in> job_ids s"
      by (simp add: job_ids_def)
    with dj have "r_id r \<notin> dlq_ids s"
      by (auto simp: disjoint_tables_def)
    moreover have "int (r_attempts r') \<le> r_max_retries r'"
      if "r' \<in> set (jobs s')" "r_id r' = r_id r" for r'
    proof -
      from that(1) obtain x where x: "x \<in> set (jobs s)"
        "r' = (if x = r then x\<lparr>r_attempts := r_attempts r + 1, r_state := Pending,
                                r_next_run := now + b ^ (r_attempts r + 1)\<rparr> else x)"
        unfolding s' schedule_after_increment [OF d r j(1)] by auto
      with that(2) have "r_id x = r_id r"
        by (simp split: if_splits)
      with d x(1) r have "x = r"
        by (auto intro: distinct_ids_eq)
      with x(2) True show ?thesis by simp
    qed
    ultimately show ?thesis
      using True \<open>r_id r \<in> job_ids s\<close> ids by simp
  next
    case False
    with eq run j have "s' = move_to_dlq now ?j (r_attempts r + 1) (increment_attempts (j_id ?j) s)"
      by simp
    then have "job_ids s' = job_ids s - {r_id r}" "dlq_ids s' = insert (r_id r) (dlq_ids s)"
      by (simp_all add: ids_move_to_dlq ids_increment_attempts j)
    with False show ?thesis by simp
  qed
qed

text \<open>
  C5, amended. The initial store has disjoint tables. Claim, finish, reschedule, the move
  to the dead-letter queue, the outcome handler and the operator retry keep the two
  tables disjoint, and so does a submission whose id has no record in the dead-letter
  queue. When the handler returns after a failure of a job claimed from the current row,
  the id is in the jobs table and not in the dead-letter queue, with attempts within
  \<open>max_retries\<close>, if the incremented attempts are within \<open>max_retries\<close>; otherwise it is in
  the dead-letter queue and not in the jobs table.
\<close>

theorem tables_stay_disjoint:
  "disjoint_tables (init_db empty_store) \<and>
   (disjoint_tables s \<and> \<not> enqueue_target_dead opn s \<longrightarrow>
      disjoint_tables (apply_op now opn s)) \<and>
   (pk_ok s \<and> disjoint_tables s \<and> r \<in> set (jobs s) \<and> rc \<noteq> 0 \<and>
    run_job rc now (job_of_row r) s = (Returned False, s') \<longrightarrow>
      (if int (r_attempts r) + 1 \<le> r_max_retries r
       then r_id r \<in> job_ids s' \<and> r_id r \<notin> dlq_ids s' \<and>
            (\<forall>r' \<in> set (jobs s'). r_id r' = r_id r \<longrightarrow> int (r_attempts r') \<le> r_max_retries r')
       else r_id r \<notin> job_ids s' \<and> r_id r \<in> dlq_ids s'))"
  using disjoint_fresh disjoint_apply_op [of s opn now] budget_decides [of s r rc now s']
  by blast

theorem tables_stay_disjoint_witness:
  "disjoint_tables (one_job_store (row_x 0 0 Processing 1 0)) \<and>
   disjoint_tables (apply_op 3 (Run_job 1 (job_x 0 0)) (one_job_store (row_x 0 0 Processing 1 0))) \<and>
   ''x'' \<notin> job_ids (snd (run_job 1 3 (job_x 0 0) (one_job_store (row_x 0 0 Processing 1 0)))) \<and>
   ''x'' \<in> dlq_ids (snd (run_job 1 3 (job_x 0 0) (one_job_store (row_x 0 0 Processing 1 0))))"
proof -
  let ?r = "row_x 0 0 Processing 1 0"
  let ?s = "one_job_store ?r"
  have dj: "disjoint_tables ?s"
    by (simp add: disjoint_tables_def job_ids_def dlq_ids_def one_job_store_def)
  have nd: "\<not> enqueue_target_dead (Run_job 1 (job_x 0 0)) ?s"
    by (simp add: enqueue_target_dead_def)
  have j: "job_of_row ?r = job_x 0 0"
    by (simp add: job_of_row_def row_x_def job_x_def)
  have run: "fst (run_job 1 3 (job_x 0 0) ?s) = Returned False"
    by (simp add: one_job_store_def ex_config_def job_x_def row_x_def run_job_eval config_eval)
  have r: "?r \<in> set (jobs ?s)" "r_id ?r = ''x''" "r_attempts ?r = 0" "r_max_retries ?r = 0"
    by (simp_all add: one_job_store_def row_x_def)
  from tables_stay_disjoint [of ?s "Run_job 1 (job_x 0 0)" 3 ?r 1 "snd (run_job 1 3 (job_x 0 0) ?s)"]
    dj nd pk_one_job [of ?r] r run j
  show ?thesis
    by (simp add: prod_eq_iff)
qed

text \<open>
  C5 as stated fails twice. Job \<open>x\<close> with \<open>max_retries = 0\<close> is submitted, claimed, fails
  and is moved to the dead-letter queue; submitting \<open>x\<close> again puts it in the jobs table
  while its dead record stays. And job \<open>x\<close> with \<open>max_retries = 5\<close> is submitted and
  claimed, then submitted again with \<open>max_retries = 0\<close>; when the first execution fails,
  the handler compares with the 5 it claimed and reschedules: the row has one attempt
  and \<open>max_retries = 0\<close>.
\<close>

theorem tables_stay_disjoint_counterexample:
  "fst (get_next_job None 2 (run_ops [(1, Enqueue (payload_x (Some 0)))] fresh_store)) =
     Some (job_x 0 0) \<and>
   run_ops [(1, Enqueue (payload_x (Some 0))), (2, Claim None), (3, Run_job 1 (job_x 0 0)),
            (4, Enqueue (payload_x (Some 0)))] fresh_store =
     \<lparr>jobs = [row_x 0 0 Pending 4 0],
      dlq = [\<lparr>d_id = ''x'', d_command = ''false'', d_max_retries = 0, d_attempts = 1,
              d_failed_at = 3\<rparr>],
      config = ex_config\<rparr> \<and>
   \<not> disjoint_tables
        (run_ops [(1, Enqueue (payload_x (Some 0))), (2, Claim None), (3, Run_job 1 (job_x 0 0)),
                  (4, Enqueue (payload_x (Some 0)))] fresh_store) \<and>
   fst (get_next_job None 2 (run_ops [(1, Enqueue (payload_x (Some 5)))] fresh_store)) =
     Some (job_x 5 0) \<and>
   run_ops [(1, Enqueue (payload_x (Some 5))), (2, Claim None), (3, Enqueue (payload_x (Some 0))),
            (4, Run_job 1 (job_x 5 0))] fresh_store =
     one_job_store (row_x 0 1 Pending 3 6)"
  by (simp add: fresh_eval payload_x_def job_x_def row_x_def one_job_store_def ex_config_def
      enqueue_eval claim_eval run_job_eval config_eval disjoint_tables_def job_ids_def dlq_ids_def)

subsection \<open>Submission\<close>


lemma config_int_jobs_update [simp]:
  "config_int key dflt (s\<lparr>jobs := rows\<rparr>) = config_int key dflt s"
  by (simp add: config_int_def get_config_def)







subsection \<open>Operator retry of a dead job\<close>

text \<open>
  C9. \<^verbatim>\<open>dlq_retry\<close> of an id that has no record in the dead-letter queue reports that
  there is no such job and changes nothing.
\<close>

theorem dlq_retry_unknown_id:
  "job_id \<notin> d_id ` set (dlq s) \<Longrightarrow> dlq_retry now job_id s = (No_DLQ_job, s)"
proof -
  assume "job_id \<notin> d_id ` set (dlq s)"
  then have "find (\<lambda>d. d_id d = job_id) (dlq s) = None"
    by (simp add: find_None_ids)
  then show ?thesis
    by (simp add: dlq_retry_def)
qed

theorem dlq_retry_unknown_id_witness:
  "dlq_retry 60 ''z'' ex_dead_store = (No_DLQ_job, ex_dead_store)"
proof -
  have "''z'' \<notin> d_id ` set (dlq ex_dead_store)"
    by (simp add: ex_dead_defs)
  then show ?thesis
    by (rule dlq_retry_unknown_id)
qed

text \<open>
  C7. \<^verbatim>\<open>dlq_retry\<close> of an id that has a record in the dead-letter queue removes that
  record and stores a fresh job with the record's command and max_retries, pending, with
  no attempts and \<open>next_run = 0\<close>; the new row is eligible at every time from 0 on.
\<close>

theorem dlq_retry_readmits:
  assumes "pk_ok s" "d \<in> set (dlq s)" "0 \<le> now'"
  shows "dlq_retry now (d_id d) s =
           (Retried,
            s\<lparr>dlq := filter (\<lambda>x. d_id x \<noteq> d_id d) (dlq s),
              jobs := filter (\<lambda>x. r_id x \<noteq> d_id d) (jobs s) @
                      [\<lparr>r_id = d_id d, r_command = d_command d, r_max_retries = d_max_retries d,
                        r_attempts = 0, r_state = Pending, r_enqueued_at = now, r_next_run = 0\<rparr>]\<rparr>) \<and>
         eligible now'
           \<lparr>r_id = d_id d, r_command = d_command d, r_max_retries = d_max_retries d,
            r_attempts = 0, r_state = Pending, r_enqueued_at = now, r_next_run = 0\<rparr>"
proof -
  from assms(1,2) have "find (\<lambda>x. d_id x = d_id d) (dlq s) = Some d"
    by (intro find_Some_distinct) (simp_all add: pk_ok_def)
  with assms(3) show ?thesis
    by (simp add: dlq_retry_def insert_or_replace_job_def eligible_def)
qed

theorem dlq_retry_readmits_witness:
  "pk_ok ex_dead_store \<and>
   dlq_retry 60 ''y'' ex_dead_store =
     (Retried,
      \<lparr>jobs = [ex_rowA,
               \<lparr>r_id = ''y'', r_command = ''false'', r_max_retries = 2, r_attempts = 0,
                r_state = Pending, r_enqueued_at = 60, r_next_run = 0\<rparr>],
       dlq = [], config = ex_config\<rparr>)"
proof -
  have pk: "pk_ok ex_dead_store"
    by (rule pk_ok_ex_dead_store)
  have "ex_dead_row \<in> set (dlq ex_dead_store)"
    by (simp add: ex_dead_defs)
  from dlq_retry_readmits [OF pk this, of 60 60] pk show ?thesis
    by (simp add: ex_dead_defs)
qed

end
